theory Spec2Isabelle
  imports Complex_Main "HOL-Library.Sublist"
begin

section \<open>Text and numbers as the Python code sees them\<close>

text \<open>
  The program is a Streamlit script, \<^verbatim>\<open>app.py\<close>, over a pandas table read from
  \<^verbatim>\<open>venues.csv\<close>. Its two stages are \<^verbatim>\<open>load_data\<close> (lines 11-36) and the
  statements that compute \<^verbatim>\<open>filtered_venues\<close> (lines 78-93).

  Conventions of the model:
  \<^item> a Python \<^verbatim>\<open>str\<close> is a \<^typ>\<open>string\<close>, read as the UTF-8 bytes of the text, so the rupee
    sign is the three bytes \<open>E2 82 B9\<close> and text is ASCII when every byte is below 128;
  \<^item> case mapping (\<^verbatim>\<open>str.lower\<close>, \<^verbatim>\<open>re.IGNORECASE\<close>) acts on the ASCII letters and
    leaves every other byte as it is;
  \<^item> Python integers are \<^typ>\<open>int\<close>; what pandas stores of them in a column is written
    out where the code converts (lines 30 and 33);
  \<^item> a finite float is the rational number it denotes; only \<^verbatim>\<open>int(x)\<close>, which truncates
    towards zero, is ever applied to one.
\<close>

datatype error = ValueError | OverflowError | TypeError | AttributeError | KeyError

text \<open>
  What the code takes from the Python and pandas installation it runs on, and the
  repository does not hold, is a parameter of the model:
  \<^item> \<open>int_non_ascii\<close> and \<open>match_non_ascii\<close>: the results of \<^verbatim>\<open>int(s)\<close> and of
    \<^verbatim>\<open>re.match(r"^\d+(-\d+)?$", s)\<close> on text that is not ASCII, which depend on the
    Unicode database (its decimal digits and its white space);
  \<^item> \<open>max_str_digits\<close>: the limit on the digits of a numeral that \<^verbatim>\<open>int\<close> accepts
    (\<^verbatim>\<open>sys.get_int_max_str_digits()\<close>: 4300 by default from CPython 3.11 on, 0 for no
    limit);
  \<^item> \<open>big_Capacity\<close>: what lines 28-30 make of the parsed capacities when one of them is
    beyond \<^verbatim>\<open>2**53\<close> in magnitude: an exception, or a value for each such number (the
    column is then held as float64, int64, uint64 or Python objects, depending on the
    other cells);
  \<^item> \<open>big_Budget\<close>: what line 33 makes of a budget outside the 64-bit range.
  Every statement below holds for every value of these parameters.
\<close>

record runtime =
  int_non_ascii :: "string \<Rightarrow> int option"
  match_non_ascii :: "string \<Rightarrow> bool"
  max_str_digits :: nat
  big_Capacity :: "int option list \<Rightarrow> error + (int \<Rightarrow> int)"
  big_Budget :: "int \<Rightarrow> error + int"

definition is_ascii :: "string \<Rightarrow> bool" where
  "is_ascii s \<longleftrightarrow> list_all (\<lambda>c. (of_char c :: nat) < 128) s"

definition is_digit :: "char \<Rightarrow> bool" where
  \<comment> \<open>the ASCII digits\<close>
  "is_digit c \<longleftrightarrow> 48 \<le> (of_char c :: nat) \<and> (of_char c :: nat) \<le> 57"

definition digit_val :: "char \<Rightarrow> int" where
  "digit_val c = of_char c - 48"

definition is_space :: "char \<Rightarrow> bool" where
  \<comment> \<open>the ASCII characters that \<^verbatim>\<open>int\<close> skips around a numeral: TAB, LF, VT, FF, CR
      and the space\<close>
  "is_space c \<longleftrightarrow>
     (9 \<le> (of_char c :: nat) \<and> (of_char c :: nat) \<le> 13) \<or> (of_char c :: nat) = 32"

definition strip :: "string \<Rightarrow> string" where
  "strip s = rev (dropWhile is_space (rev (dropWhile is_space s)))"

text \<open>
  The digits of a Python integer literal in base 10: a digit, then digits, each optionally
  preceded by one underscore. \<open>digits_tail acc s\<close> reads what follows a digit.
\<close>

fun digits_tail :: "int \<Rightarrow> string \<Rightarrow> int option" where
  "digits_tail acc [] = Some acc"
| "digits_tail acc [c] = (if is_digit c then Some (10 * acc + digit_val c) else None)"
| "digits_tail acc (c # d # cs) =
     (if is_digit c then digits_tail (10 * acc + digit_val c) (d # cs)
      else if c = CHR ''_'' \<and> is_digit d then digits_tail (10 * acc + digit_val d) cs
      else None)"

definition decimal :: "string \<Rightarrow> int option" where
  "decimal s =
     (case s of
        [] \<Rightarrow> None
      | c # cs \<Rightarrow> if is_digit c then digits_tail (digit_val c) cs else None)"

definition over_limit :: "runtime \<Rightarrow> string \<Rightarrow> bool" where
  \<comment> \<open>the numeral has more digits than \<^verbatim>\<open>int\<close> accepts; CPython applies the limit to
      numerals of more than 640 digits only\<close>
  "over_limit rt body \<longleftrightarrow>
     640 < length (filter is_digit body) \<and> 0 < max_str_digits rt \<and>
     max_str_digits rt < length (filter is_digit body)"

definition limited :: "runtime \<Rightarrow> string \<Rightarrow> int option" where
  "limited rt body = (if over_limit rt body then None else decimal body)"

definition ascii_int :: "runtime \<Rightarrow> string \<Rightarrow> int option" where
  \<comment> \<open>\<^verbatim>\<open>int(s)\<close> for ASCII text: \<open>None\<close> is the \<^verbatim>\<open>ValueError\<close>\<close>
  "ascii_int rt s =
     (case strip s of
        [] \<Rightarrow> None
      | c # cs \<Rightarrow>
          if c = CHR ''-'' then map_option uminus (limited rt cs)
          else if c = CHR ''+'' then limited rt cs
          else limited rt (c # cs))"

definition py_int :: "runtime \<Rightarrow> string \<Rightarrow> int option" where
  \<comment> \<open>\<^verbatim>\<open>int(s)\<close> for a \<^verbatim>\<open>str\<close>\<close>
  "py_int rt s = (if is_ascii s then ascii_int rt s else int_non_ascii rt s)"

fun split_on :: "char \<Rightarrow> string \<Rightarrow> string list" where
  \<comment> \<open>\<^verbatim>\<open>s.split(sep)\<close> for a one-character separator\<close>
  "split_on sep [] = [ [] ]"
| "split_on sep (c # cs) =
     (if c = sep then [] # split_on sep cs
      else (case split_on sep cs of
              [] \<Rightarrow> [ [c] ]
            | p # ps \<Rightarrow> (c # p) # ps))"

fun py_in :: "string \<Rightarrow> string \<Rightarrow> bool" where
  \<comment> \<open>\<^verbatim>\<open>item in x\<close> for two \<^verbatim>\<open>str\<close>: \<open>item\<close> occurs in \<open>x\<close> as a contiguous run\<close>
  "py_in item [] = (item = [])"
| "py_in item (c # cs) = (prefix item (c # cs) \<or> py_in item cs)"

definition lower_char :: "char \<Rightarrow> char" where
  "lower_char c =
     (if 65 \<le> (of_char c :: nat) \<and> (of_char c :: nat) \<le> 90
      then char_of ((of_char c :: nat) + 32) else c)"

definition lower :: "string \<Rightarrow> string" where
  "lower s = map lower_char s"

section \<open>The table\<close>

text \<open>
  A cell of the Capacity or Budget column as \<^verbatim>\<open>read_csv\<close> has produced it: text, an
  integer, a finite float, the missing value (an empty cell is read as the float NaN) or an
  infinite float (the text \<^verbatim>\<open>inf\<close> in a column of numbers).
\<close>

datatype cell = CStr string | CInt int | CFloat rat | CNaN | CInf

text \<open>
  A row holds the seven columns the program names. A cell of the five other columns is
  its text, or \<open>None\<close> when it holds no text (the cell is missing, or the whole column was
  read as numbers). Capacity and Budget change type during the load, hence the two type
  parameters.
\<close>

record ('c, 'b) venue =
  Venue_Name :: "string option"
  Location :: "string option"
  Capacity :: 'c
  Type :: "string option"
  Budget :: 'b
  Event_Type :: "string option"
  Available_Equipments :: "string option"

definition set_Capacity :: "('c, 'b) venue \<Rightarrow> 'd \<Rightarrow> ('d, 'b) venue" where
  "set_Capacity v c =
     \<lparr>Venue_Name = Venue_Name v, Location = Location v, Capacity = c, Type = Type v,
      Budget = Budget v, Event_Type = Event_Type v,
      Available_Equipments = Available_Equipments v\<rparr>"

definition set_Budget :: "('c, 'b) venue \<Rightarrow> 'd \<Rightarrow> ('c, 'd) venue" where
  "set_Budget v b =
     \<lparr>Venue_Name = Venue_Name v, Location = Location v, Capacity = Capacity v, Type = Type v,
      Budget = b, Event_Type = Event_Type v,
      Available_Equipments = Available_Equipments v\<rparr>"

text \<open>
  The loaded table is a pandas frame: its rows, and what the filter depends on beside
  them. \<open>columns\<close> tells whether the frame has its columns (indexing a frame by a list of
  no labels gives a frame without any). \<open>Event_Type_text\<close> and \<open>Type_text\<close> tell whether
  \<^verbatim>\<open>read_csv\<close> made the column a column of text, which is what the \<^verbatim>\<open>.str\<close> accessor
  requires; it does so when the file has no row or some cell of the column holds text, and
  the type stays with the column when rows are dropped.
\<close>

record frame =
  rows :: "(int, int) venue list"
  columns :: bool
  Event_Type_text :: bool
  Type_text :: bool

definition is_text_column :: "('r \<Rightarrow> string option) \<Rightarrow> 'r list \<Rightarrow> bool" where
  "is_text_column col vs \<longleftrightarrow> vs = [] \<or> list_ex (\<lambda>v. col v \<noteq> None) vs"

text \<open>
  Applying a function that may raise to every row in turn: the first exception ends the
  whole operation, as it does in \<^verbatim>\<open>Series.apply\<close> and \<^verbatim>\<open>Series.astype\<close>.
\<close>

fun map_err :: "('a \<Rightarrow> error + 'b) \<Rightarrow> 'a list \<Rightarrow> error + 'b list" where
  "map_err f [] = Inr []"
| "map_err f (x # xs) =
     (case f x of
        Inl e \<Rightarrow> Inl e
      | Inr y \<Rightarrow> (case map_err f xs of Inl e \<Rightarrow> Inl e | Inr ys \<Rightarrow> Inr (y # ys)))"

section \<open>The loader\<close>

definition truncate :: "rat \<Rightarrow> int" where
  "truncate r = (if 0 \<le> r then \<lfloor>r\<rfloor> else \<lceil>r\<rceil>)"

fun int_of_cell :: "runtime \<Rightarrow> cell \<Rightarrow> error + int" where
  \<comment> \<open>the builtin \<^verbatim>\<open>int(cap)\<close>\<close>
  "int_of_cell rt (CStr s) = (case py_int rt s of None \<Rightarrow> Inl ValueError | Some n \<Rightarrow> Inr n)"
| "int_of_cell rt (CInt n) = Inr n"
| "int_of_cell rt (CFloat r) = Inr (truncate r)"
| "int_of_cell rt CNaN = Inl ValueError"
| "int_of_cell rt CInf = Inl OverflowError"

definition cap_shape :: "string \<Rightarrow> bool" where
  \<comment> \<open>the language of \<^verbatim>\<open>\d+(-\d+)?\<close> over ASCII text\<close>
  "cap_shape s \<longleftrightarrow>
     (let a = takeWhile is_digit s; r = dropWhile is_digit s
      in a \<noteq> [] \<and>
         (case r of
            [] \<Rightarrow> True
          | c # b \<Rightarrow> c = CHR ''-'' \<and> b \<noteq> [] \<and> list_all is_digit b))"

definition re_match_capacity :: "runtime \<Rightarrow> string \<Rightarrow> bool" where
  \<comment> \<open>\<^verbatim>\<open>re.match(r"^\d+(-\d+)?$", cap)\<close>; \<^verbatim>\<open>$\<close> also matches before a final newline\<close>
  "re_match_capacity rt s \<longleftrightarrow>
     (if is_ascii s
      then cap_shape s \<or> (s \<noteq> [] \<and> last s = CHR 0x0A \<and> cap_shape (butlast s))
      else match_non_ascii rt s)"

fun parse_capacity :: "runtime \<Rightarrow> cell \<Rightarrow> error + int option" where
  "parse_capacity rt (CStr s) =
     (if re_match_capacity rt s then
        (case int_of_cell rt (CStr (last (split_on CHR ''-'' s))) of
           Inl e \<Rightarrow> Inl e
         | Inr n \<Rightarrow> Inr (Some n))
      else
        (case int_of_cell rt (CStr s) of
           Inl ValueError \<Rightarrow> Inr None
         | Inl e \<Rightarrow> Inl e
         | Inr n \<Rightarrow> Inr (Some n)))"
| "parse_capacity rt cap =
     (case int_of_cell rt cap of
        Inl ValueError \<Rightarrow> Inr None
      | Inl e \<Rightarrow> Inl e
      | Inr n \<Rightarrow> Inr (Some n))"

definition Capacity_parsed ::
    "runtime \<Rightarrow> (cell, 'b) venue \<Rightarrow> error + (int option, 'b) venue" where
  "Capacity_parsed rt v =
     (case parse_capacity rt (Capacity v) of
        Inl e \<Rightarrow> Inl e
      | Inr c \<Rightarrow> Inr (set_Capacity v c))"

text \<open>
  Lines 28-30 hold the parsed capacities in a column, drop the missing ones and convert
  what is left to 64-bit integers. A number of magnitude at most \<^verbatim>\<open>2**53\<close> comes out as
  it went in, whichever way the column was held: \<open>stored\<close> of it is the identity.
\<close>

definition small :: "int \<Rightarrow> bool" where
  "small n \<longleftrightarrow> - (2 ^ 53) \<le> n \<and> n \<le> 2 ^ 53"

definition all_small :: "int option list \<Rightarrow> bool" where
  "all_small ps \<longleftrightarrow> list_all (\<lambda>p. case p of None \<Rightarrow> True | Some n \<Rightarrow> small n) ps"

definition stored :: "(int \<Rightarrow> int) \<Rightarrow> int \<Rightarrow> int" where
  "stored g n = (if small n then n else g n)"

definition Capacity_column :: "runtime \<Rightarrow> int option list \<Rightarrow> error + (int \<Rightarrow> int)" where
  "Capacity_column rt ps =
     (if all_small ps then Inr (\<lambda>n. n)
      else (case big_Capacity rt ps of Inl e \<Rightarrow> Inl e | Inr g \<Rightarrow> Inr (stored g)))"

fun dropna_Capacity ::
    "(int \<Rightarrow> int) \<Rightarrow> (int option, 'b) venue list \<Rightarrow> (int, 'b) venue list" where
  \<comment> \<open>\<^verbatim>\<open>dropna(subset=["Capacity"])\<close>, then \<^verbatim>\<open>astype(int)\<close> on the column\<close>
  "dropna_Capacity g [] = []"
| "dropna_Capacity g (v # vs) =
     (case Capacity v of
        None \<Rightarrow> dropna_Capacity g vs
      | Some n \<Rightarrow> set_Capacity v (g n) # dropna_Capacity g vs)"

definition rupee :: string where
  "rupee = [CHR 0xE2, CHR 0x82, CHR 0xB9]"

fun remove_rupee :: "string \<Rightarrow> string" where
  "remove_rupee (a # b # c # cs) =
     (if [a, b, c] = rupee then remove_rupee cs else a # remove_rupee (b # c # cs))"
| "remove_rupee cs = cs"

fun replace_Budget :: "cell \<Rightarrow> cell" where
  \<comment> \<open>\<^verbatim>\<open>replace({"\<dots>": "", ",": ""}, regex=True)\<close>: only text is rewritten\<close>
  "replace_Budget (CStr s) = CStr (filter (\<lambda>c. c \<noteq> CHR '','') (remove_rupee s))"
| "replace_Budget b = b"

definition int64 :: "runtime \<Rightarrow> int \<Rightarrow> error + int" where
  \<comment> \<open>storing a Python integer in a 64-bit column\<close>
  "int64 rt n = (if - (2 ^ 63) \<le> n \<and> n < 2 ^ 63 then Inr n else big_Budget rt n)"

fun astype_int :: "runtime \<Rightarrow> cell \<Rightarrow> error + int" where
  \<comment> \<open>\<^verbatim>\<open>astype(int)\<close> on one cell: a missing or infinite value is a \<^verbatim>\<open>ValueError\<close>\<close>
  "astype_int rt (CStr s) = (case py_int rt s of None \<Rightarrow> Inl ValueError | Some n \<Rightarrow> int64 rt n)"
| "astype_int rt (CInt n) = int64 rt n"
| "astype_int rt (CFloat r) = int64 rt (truncate r)"
| "astype_int rt CNaN = Inl ValueError"
| "astype_int rt CInf = Inl ValueError"

definition Budget_int :: "runtime \<Rightarrow> ('c, cell) venue \<Rightarrow> error + ('c, int) venue" where
  "Budget_int rt v =
     (case astype_int rt (replace_Budget (Budget v)) of
        Inl e \<Rightarrow> Inl e
      | Inr n \<Rightarrow> Inr (set_Budget v n))"

definition load_data :: "runtime \<Rightarrow> (cell, cell) venue list \<Rightarrow> error + frame" where
  "load_data rt venues =
     (case map_err (Capacity_parsed rt) venues of
        Inl e \<Rightarrow> Inl e
      | Inr parsed \<Rightarrow>
          (case Capacity_column rt (map Capacity parsed) of
             Inl e \<Rightarrow> Inl e
           | Inr g \<Rightarrow>
               (case map_err (Budget_int rt) (dropna_Capacity g parsed) of
                  Inl e \<Rightarrow> Inl e
                | Inr loaded \<Rightarrow>
                    Inr \<lparr>rows = loaded, columns = True,
                         Event_Type_text = is_text_column Event_Type venues,
                         Type_text = is_text_column Type venues\<rparr>)))"

section \<open>The filter\<close>

text \<open>
  The criteria are the six widgets of the script. The event type is one of the six options
  of its select box; none of them holds a character that is special in a regular
  expression, so \<^verbatim>\<open>str.contains(event_type, case=False, na=False)\<close>, which reads its
  argument as a pattern, searches for the option as plain text, ignoring case.
\<close>

datatype event_choice = Wedding | Corporate_Event | Birthday | Conference | Concert | Exhibition

fun event_label :: "event_choice \<Rightarrow> string" where
  "event_label Wedding = ''Wedding''"
| "event_label Corporate_Event = ''Corporate Event''"
| "event_label Birthday = ''Birthday''"
| "event_label Conference = ''Conference''"
| "event_label Concert = ''Concert''"
| "event_label Exhibition = ''Exhibition''"

record criteria =
  event_type :: event_choice
  selected_location :: string
  attendees :: int
  budget :: int
  venue_type :: string
  selected_amenities :: "string list"

definition str_contains :: "string \<Rightarrow> string option \<Rightarrow> bool" where
  \<comment> \<open>\<^verbatim>\<open>.str.contains(pat, case=False, na=False)\<close> on one cell of a column of text\<close>
  "str_contains pat x =
     (case x of None \<Rightarrow> False | Some s \<Rightarrow> py_in (lower pat) (lower s))"

definition type_matches :: "string \<Rightarrow> string option \<Rightarrow> bool" where
  \<comment> \<open>\<^verbatim>\<open>.str.lower() == venue_type.lower()\<close> on one cell of a column of text\<close>
  "type_matches vt x =
     (case x of None \<Rightarrow> False | Some s \<Rightarrow> lower s = lower vt)"

fun all_in :: "string list \<Rightarrow> string option \<Rightarrow> error + bool" where
  \<comment> \<open>\<^verbatim>\<open>all(item in x for item in selected_amenities)\<close>; \<^verbatim>\<open>item in x\<close> raises
      \<^verbatim>\<open>TypeError\<close> when \<open>x\<close> is not text\<close>
  "all_in [] x = Inr True"
| "all_in (item # items) None = Inl TypeError"
| "all_in (item # items) (Some s) = (if py_in item s then all_in items (Some s) else Inr False)"

definition base_mask :: "criteria \<Rightarrow> (int, int) venue \<Rightarrow> bool" where
  "base_mask c v \<longleftrightarrow>
     Capacity v \<ge> attendees c \<and> Budget v \<le> budget c \<and>
     str_contains (event_label (event_type c)) (Event_Type v)"

text \<open>
  Lines 78-93. Line 79 indexes the frame by column name, which raises \<^verbatim>\<open>KeyError\<close> on a
  frame without columns. The \<^verbatim>\<open>.str\<close> accessor of lines 81 and 85 raises
  \<^verbatim>\<open>AttributeError\<close> on a column that is not a column of text. On a frame with no row,
  the \<^verbatim>\<open>apply\<close> of line 92 returns an empty series that is not boolean, and indexing
  by it selects no column: the result has neither rows nor columns.
\<close>

definition filtered_venues :: "frame \<Rightarrow> criteria \<Rightarrow> error + frame" where
  "filtered_venues venues c =
     (if \<not> columns venues then Inl KeyError
      else if \<not> Event_Type_text venues then Inl AttributeError
      else
        let f0 = filter (base_mask c) (rows venues)
        in if venue_type c \<noteq> ''Any'' \<and> \<not> Type_text venues then Inl AttributeError
           else
             let f1 = (if venue_type c \<noteq> ''Any''
                       then filter (\<lambda>v. type_matches (venue_type c) (Type v)) f0 else f0);
                 f2 = (if selected_location c \<noteq> ''Any''
                       then filter (\<lambda>v. Location v = Some (selected_location c)) f1 else f1)
             in if selected_amenities c \<noteq> []
                then (if f2 = [] then Inr (venues\<lparr>rows := [], columns := False\<rparr>)
                      else
                        (case map_err
                                (\<lambda>v. all_in (selected_amenities c) (Available_Equipments v))
                                f2 of
                           Inl e \<Rightarrow> Inl e
                         | Inr keep \<Rightarrow>
                             Inr (venues\<lparr>rows := map fst (filter snd (zip f2 keep))\<rparr>)))
                else Inr (venues\<lparr>rows := f2\<rparr>))"

section \<open>Decimal numerals\<close>

text \<open>
  \<open>digits s\<close>: \<open>s\<close> is a non-empty run of ASCII digits; \<open>dec_value s\<close> is the number it
  denotes, and \<open>str_of_nat n\<close> is the decimal numeral of \<open>n\<close>, Python's \<^verbatim>\<open>str(n)\<close>.
\<close>

definition digits :: "string \<Rightarrow> bool" where
  "digits s \<longleftrightarrow> s \<noteq> [] \<and> list_all is_digit s"

definition dec_value :: "string \<Rightarrow> int" where
  "dec_value s = foldl (\<lambda>a c. 10 * a + digit_val c) 0 s"

function str_of_nat :: "nat \<Rightarrow> string" where
  "str_of_nat n =
     (if n < 10 then [char_of (48 + n)]
      else str_of_nat (n div 10) @ [char_of (48 + n mod 10)])"
  by pat_completeness auto
termination
  by (relation "measure id") auto

declare str_of_nat.simps [simp del]

definition within_limit :: "runtime \<Rightarrow> string \<Rightarrow> bool" where
  \<comment> \<open>a run of digits that \<^verbatim>\<open>int\<close> accepts\<close>
  "within_limit rt s \<longleftrightarrow>
     length s \<le> 640 \<or> max_str_digits rt = 0 \<or> length s \<le> max_str_digits rt"

section \<open>The criteria as predicates on a row\<close>

text \<open>
  The predicates below name what the filter computes, for the statements that follow.
  \<open>has_all\<close> is the amenity test on a cell that holds text, \<open>pre_amenity\<close> the conjunction
  of the criteria applied before the amenity test, \<open>selected\<close> the whole conjunction.
\<close>

definition has_all :: "string list \<Rightarrow> string option \<Rightarrow> bool" where
  "has_all items x =
     (case x of None \<Rightarrow> False | Some s \<Rightarrow> list_all (\<lambda>item. py_in item s) items)"

definition pre_amenity :: "criteria \<Rightarrow> (int, int) venue \<Rightarrow> bool" where
  "pre_amenity c v \<longleftrightarrow>
     base_mask c v \<and>
     (venue_type c \<noteq> ''Any'' \<longrightarrow> type_matches (venue_type c) (Type v)) \<and>
     (selected_location c \<noteq> ''Any'' \<longrightarrow> Location v = Some (selected_location c))"

definition selected :: "criteria \<Rightarrow> (int, int) venue \<Rightarrow> bool" where
  "selected c v \<longleftrightarrow>
     pre_amenity c v \<and>
     (selected_amenities c \<noteq> [] \<longrightarrow>
        has_all (selected_amenities c) (Available_Equipments v))"

text \<open>
  The reading of the Available Equipments field as a collection of tags: the pieces of the
  text between commas, without the white space around them. The program never computes
  it; it is here to be compared with the test the program does.
\<close>

definition spec_amenity_tags :: "string \<Rightarrow> string list" where
  "spec_amenity_tags x = map strip (split_on CHR '','' x)"

definition spec_amenity_criterion :: "string list \<Rightarrow> string \<Rightarrow> bool" where
  "spec_amenity_criterion items x \<longleftrightarrow> set items \<subseteq> set (spec_amenity_tags x)"

section \<open>A small dataset\<close>

text \<open>
  Rows of a \<^verbatim>\<open>venues.csv\<close> as \<^verbatim>\<open>read_csv\<close> returns them, and the same rows after the
  load. \<open>hall\<close> is the row of the specification's scenario A, \<open>plan\<close> its criteria. The
  examples are evaluated on \<open>cpython\<close>, a runtime with the digit limit of CPython 3.11;
  its other components are never consulted, the text that reaches \<^verbatim>\<open>int\<close> and the
  pattern being ASCII and the numbers small.
\<close>

definition cpython :: runtime where
  "cpython =
     \<lparr>int_non_ascii = (\<lambda>s. None), match_non_ascii = (\<lambda>s. False), max_str_digits = 4300,
      big_Capacity = (\<lambda>ps. Inl OverflowError), big_Budget = (\<lambda>n. Inl OverflowError)\<rparr>"

definition hall :: "(cell, cell) venue" where
  "hall =
     \<lparr>Venue_Name = Some ''Hall'', Location = Some ''City A'', Capacity = CStr ''100-500'',
      Type = Some ''Indoor'', Budget = CStr (rupee @ ''20,000''),
      Event_Type = Some ''Wedding'', Available_Equipments = Some ''Mic,WiFi''\<rparr>"

definition lawn :: "(cell, cell) venue" where
  "lawn =
     \<lparr>Venue_Name = Some ''Lawn'', Location = Some ''City B'', Capacity = CStr ''300-800'',
      Type = Some ''Outdoor'', Budget = CStr ''15,000'',
      Event_Type = None, Available_Equipments = None\<rparr>"

definition barn :: "(cell, cell) venue" where
  "barn =
     \<lparr>Venue_Name = Some ''Barn'', Location = Some ''City B'', Capacity = CStr ''notanumber'',
      Type = Some ''Indoor'', Budget = CStr ''on request'',
      Event_Type = Some ''Birthday'', Available_Equipments = Some ''Seating''\<rparr>"

definition club :: "(cell, cell) venue" where
  "club =
     \<lparr>Venue_Name = Some ''Club'', Location = Some ''City A'', Capacity = CStr ''250'',
      Type = Some ''INDOOR'', Budget = CStr (rupee @ ''9,500''),
      Event_Type = Some ''Concert, wedding'',
      Available_Equipments = Some ''Microphone,WiFi''\<rparr>"

definition cellar :: "(cell, cell) venue" where
  "cellar =
     \<lparr>Venue_Name = Some ''Cellar'', Location = Some ''City A'', Capacity = CStr ''-5'',
      Type = Some ''Indoor'', Budget = CStr (rupee @ ''-100''),
      Event_Type = Some ''Birthday'', Available_Equipments = Some ''Seating''\<rparr>"

definition hall_loaded :: "(int, int) venue" where
  "hall_loaded =
     \<lparr>Venue_Name = Some ''Hall'', Location = Some ''City A'', Capacity = 500,
      Type = Some ''Indoor'', Budget = 20000,
      Event_Type = Some ''Wedding'', Available_Equipments = Some ''Mic,WiFi''\<rparr>"

definition lawn_loaded :: "(int, int) venue" where
  "lawn_loaded =
     \<lparr>Venue_Name = Some ''Lawn'', Location = Some ''City B'', Capacity = 800,
      Type = Some ''Outdoor'', Budget = 15000,
      Event_Type = None, Available_Equipments = None\<rparr>"

definition club_loaded :: "(int, int) venue" where
  "club_loaded =
     \<lparr>Venue_Name = Some ''Club'', Location = Some ''City A'', Capacity = 250,
      Type = Some ''INDOOR'', Budget = 9500,
      Event_Type = Some ''Concert, wedding'',
      Available_Equipments = Some ''Microphone,WiFi''\<rparr>"

definition cellar_loaded :: "(int, int) venue" where
  "cellar_loaded =
     \<lparr>Venue_Name = Some ''Cellar'', Location = Some ''City A'', Capacity = - 5,
      Type = Some ''Indoor'', Budget = - 100,
      Event_Type = Some ''Birthday'', Available_Equipments = Some ''Seating''\<rparr>"


definition plan :: criteria where
  "plan =
     \<lparr>event_type = Wedding, selected_location = ''Any'', attendees = 100, budget = 25000,
      venue_type = ''Indoor'', selected_amenities = [''Mic'']\<rparr>"

definition venues_csv :: "(cell, cell) venue list" where
  "venues_csv = [hall, lawn, barn, club, cellar]"

definition text_frame :: "(int, int) venue list \<Rightarrow> frame" where
  \<comment> \<open>a loaded frame whose Event Type and Type columns are columns of text\<close>
  "text_frame vs = \<lparr>rows = vs, columns = True, Event_Type_text = True, Type_text = True\<rparr>"

definition venues_loaded :: frame where
  "venues_loaded = text_frame [hall_loaded, lawn_loaded, club_loaded, cellar_loaded]"

section \<open>Facts about the text functions\<close>

lemma py_in_sublist: "py_in item x \<longleftrightarrow> sublist item x"
  by (induction x) (auto simp: sublist_Cons_right)

lemma digits_tail_digits:
  "list_all is_digit s \<Longrightarrow>
   digits_tail acc s = Some (foldl (\<lambda>a c. 10 * a + digit_val c) acc s)"
  by (induction acc s rule: digits_tail.induct) auto

lemma decimal_digits: "digits s \<Longrightarrow> decimal s = Some (dec_value s)"
  by (cases s) (simp_all add: digits_def decimal_def dec_value_def digits_tail_digits)

lemma digit_not_space: "is_digit c \<Longrightarrow> \<not> is_space c"
  by (auto simp: is_digit_def is_space_def)

lemma digit_not_sign: "is_digit c \<Longrightarrow> c \<noteq> CHR ''-'' \<and> c \<noteq> CHR ''+''"
  by (auto simp: is_digit_def)

lemma newline_space: "is_space (CHR 0x0A)"
  by (simp add: is_space_def)

lemma digits_ascii:
  assumes "digits s"
  shows "is_ascii s" and "is_ascii (s @ [CHR 0x0A])"
  using assms by (auto simp: digits_def is_ascii_def is_digit_def list_all_iff)

lemma digits_limit: "digits s \<Longrightarrow> over_limit rt s \<longleftrightarrow> \<not> within_limit rt s"
proof -
  assume "digits s"
  then have "filter is_digit s = s"
    by (simp add: digits_def list_all_iff)
  then show ?thesis
    by (auto simp: over_limit_def within_limit_def)
qed

lemma strip_digits:
  assumes "digits s"
  shows "strip s = s" and "strip (s @ [CHR 0x0A]) = s"
proof -
  from assms have hd: "\<not> is_space (hd s)" and lst: "\<not> is_space (last s)" and ne: "s \<noteq> []"
    by (auto simp: digits_def list_all_iff intro!: digit_not_space)
  have 1: "dropWhile is_space s = s" "dropWhile is_space (s @ [CHR 0x0A]) = s @ [CHR 0x0A]"
    using hd ne by (cases s; simp)+
  have 2: "dropWhile is_space (rev s) = rev s"
    using lst ne by (simp add: dropWhile_eq_self_iff hd_rev)
  show "strip s = s" "strip (s @ [CHR 0x0A]) = s"
    by (simp_all add: strip_def 1 2 newline_space)
qed

text \<open>
  \<^verbatim>\<open>int\<close> reads a run of digits, also when a newline follows it, as its value, unless the
  run is longer than the limit.
\<close>

lemma py_int_digits:
  assumes "digits s"
  shows "py_int rt s = (if within_limit rt s then Some (dec_value s) else None)"
    and "py_int rt (s @ [CHR 0x0A]) = (if within_limit rt s then Some (dec_value s) else None)"
proof -
  from assms obtain c cs where s: "s = c # cs" and c: "is_digit c"
    by (cases s) (auto simp: digits_def)
  have "(case s of [] \<Rightarrow> None
      | c # cs \<Rightarrow>
          if c = CHR ''-'' then map_option uminus (limited rt cs)
          else if c = CHR ''+'' then limited rt cs
          else limited rt (c # cs)) = limited rt s"
    using digit_not_sign[OF c] by (simp add: s)
  moreover have "limited rt s = (if within_limit rt s then Some (dec_value s) else None)"
    by (simp add: limited_def digits_limit[OF assms] decimal_digits[OF assms])
  ultimately show "py_int rt s = (if within_limit rt s then Some (dec_value s) else None)"
    "py_int rt (s @ [CHR 0x0A]) = (if within_limit rt s then Some (dec_value s) else None)"
    by (simp_all only: py_int_def ascii_int_def strip_digits[OF assms] digits_ascii[OF assms]
        if_True)
qed

lemma digit_char:
  assumes "k < 10"
  shows "is_digit (char_of (48 + k))" and "digit_val (char_of (48 + k)) = int k"
proof -
  have n: "(of_char (char_of (48 + k)) :: nat) = 48 + k"
    using assms by simp
  have "(of_char (char_of (48 + k)) :: int) = int (of_char (char_of (48 + k)))"
    by (simp only: of_nat_of_char)
  then have i: "(of_char (char_of (48 + k)) :: int) = 48 + int k"
    by (simp only: n)
  show "is_digit (char_of (48 + k))"
    unfolding is_digit_def n using assms by simp
  show "digit_val (char_of (48 + k)) = int k"
    unfolding digit_val_def i by simp
qed

lemma digits_str_of_nat: "digits (str_of_nat n)"
proof (induction n rule: str_of_nat.induct)
  case (1 n)
  show ?case
  proof (cases "n < 10")
    case True
    then show ?thesis by (subst str_of_nat.simps) (simp add: digits_def digit_char)
  next
    case False
    with 1 show ?thesis
      by (subst str_of_nat.simps) (simp add: digits_def digit_char)
  qed
qed

lemma dec_value_snoc: "dec_value (s @ [c]) = 10 * dec_value s + digit_val c"
  by (simp add: dec_value_def)

lemma dec_value_str_of_nat: "dec_value (str_of_nat n) = int n"
proof (induction n rule: str_of_nat.induct)
  case (1 n)
  show ?case
  proof (cases "n < 10")
    case True
    then show ?thesis by (subst str_of_nat.simps) (simp add: dec_value_def digit_char)
  next
    case False
    have "10 * int (n div 10) + int (n mod 10) = int n"
      by presburger
    with False 1 show ?thesis
      by (subst str_of_nat.simps) (simp add: dec_value_snoc digit_char)
  qed
qed

subsection \<open>Splitting\<close>

lemma split_on_not_Nil: "split_on sep s \<noteq> []"
  by (induction s) (auto split: list.splits)

lemma split_on_no_sep: "sep \<notin> set s \<Longrightarrow> split_on sep s = [s]"
  by (induction s) auto

lemma length_split_on:
  "length (split_on sep s) = Suc (length (filter (\<lambda>c. c = sep) s))"
  by (induction s) (auto split: list.splits)

text \<open>The last piece of a split is what follows the last separator.\<close>

lemma last_split_on: "sep \<notin> set b \<Longrightarrow> last (split_on sep (a @ sep # b)) = b"
proof (induction a)
  case Nil
  then show ?case by (simp add: split_on_no_sep)
next
  case (Cons c a)
  obtain p ps where sp: "split_on sep (a @ sep # b) = p # ps"
    using split_on_not_Nil by (cases "split_on sep (a @ sep # b)") auto
  have "length (split_on sep (a @ sep # b)) = Suc (length (filter (\<lambda>c. c = sep) (a @ sep # b)))"
    by (rule length_split_on)
  with sp have "ps \<noteq> []" by auto
  then show ?case using Cons sp by (auto simp: split_on_not_Nil)
qed

lemma split_on_hd_prefix: "split_on sep s = p # ps \<Longrightarrow> prefix p s"
  by (induction s arbitrary: p ps) (auto split: if_splits list.splits)

lemma split_on_sublist: "p \<in> set (split_on sep s) \<Longrightarrow> sublist p s"
proof (induction s arbitrary: p)
  case Nil
  then show ?case by simp
next
  case (Cons c cs)
  show ?case
  proof (cases "c = sep")
    case True
    with Cons show ?thesis by (auto simp: sublist_Cons_right)
  next
    case False
    obtain q qs where q: "split_on sep cs = q # qs"
      using split_on_not_Nil by (cases "split_on sep cs") auto
    with Cons.prems False have "p = c # q \<or> p \<in> set qs" by auto
    then show ?thesis
    proof
      assume "p = c # q"
      with split_on_hd_prefix[OF q] show ?thesis by (simp add: sublist_Cons_right)
    next
      assume "p \<in> set qs"
      with q Cons.IH[of p] show ?thesis by (simp add: sublist_Cons_right)
    qed
  qed
qed

lemma strip_sublist: "sublist (strip s) s"
proof -
  have "prefix (strip s) (dropWhile is_space s)"
    unfolding strip_def by (metis prefix_def rev_append rev_rev_ident takeWhile_dropWhile_id)
  moreover have "suffix (dropWhile is_space s) s"
    by (rule suffix_dropWhile)
  ultimately show ?thesis
    by (meson prefix_imp_sublist suffix_imp_sublist sublist_order.order.trans)
qed

lemma spec_tag_sublist: "t \<in> set (spec_amenity_tags x) \<Longrightarrow> sublist t x"
  unfolding spec_amenity_tags_def
  by (auto intro: sublist_order.order.trans[OF strip_sublist split_on_sublist])

section \<open>Facts about the loader\<close>

subsection \<open>The pattern and \<open>parse_capacity\<close> on ASCII text\<close>

lemma cap_shape_iff:
  "cap_shape s \<longleftrightarrow>
     digits s \<or> (\<exists>a b. s = a @ CHR ''-'' # b \<and> digits a \<and> digits b)"
proof
  assume cs: "cap_shape s"
  let ?a = "takeWhile is_digit s" and ?r = "dropWhile is_digit s"
  have s: "s = ?a @ ?r" by simp
  have a: "digits ?a"
    using cs by (auto simp: cap_shape_def digits_def Let_def list_all_iff dest: set_takeWhileD)
  show "digits s \<or> (\<exists>a b. s = a @ CHR ''-'' # b \<and> digits a \<and> digits b)"
  proof (cases ?r)
    case Nil
    with s a show ?thesis by simp
  next
    case (Cons c b)
    with cs have "c = CHR ''-''" "digits b"
      by (auto simp: cap_shape_def digits_def Let_def)
    with s a Cons show ?thesis by metis
  qed
next
  assume "digits s \<or> (\<exists>a b. s = a @ CHR ''-'' # b \<and> digits a \<and> digits b)"
  then show "cap_shape s"
  proof
    assume "digits s"
    then have tw: "takeWhile is_digit s = s" and dw: "dropWhile is_digit s = []"
      by (auto simp: digits_def list_all_iff)
    show ?thesis
      unfolding cap_shape_def Let_def tw dw using \<open>digits s\<close> by (simp add: digits_def)
  next
    assume "\<exists>a b. s = a @ CHR ''-'' # b \<and> digits a \<and> digits b"
    then obtain a b where s: "s = a @ CHR ''-'' # b" and a: "digits a" and b: "digits b" by blast
    have m: "\<not> is_digit CHR ''-''" by (simp add: is_digit_def)
    have tw: "takeWhile is_digit s = a" and dw: "dropWhile is_digit s = CHR ''-'' # b"
      using a m unfolding s
      by (simp_all add: digits_def list_all_iff takeWhile_append2 dropWhile_append2)
    show ?thesis
      unfolding cap_shape_def Let_def tw dw using a b by (simp add: digits_def)
  qed
qed

lemma no_dash: "digits b \<Longrightarrow> CHR ''-'' \<notin> set b \<and> CHR ''-'' \<notin> set (b @ [CHR 0x0A])"
  using digit_not_sign by (auto simp: digits_def list_all_iff)

lemma upper_number:
  assumes "digits b"
  shows "py_int rt (last (split_on CHR ''-'' (a @ CHR ''-'' # b))) =
           (if within_limit rt b then Some (dec_value b) else None)"
    and "py_int rt (last (split_on CHR ''-'' (a @ CHR ''-'' # b @ [CHR 0x0A]))) =
           (if within_limit rt b then Some (dec_value b) else None)"
    and "py_int rt (last (split_on CHR ''-'' b)) =
           (if within_limit rt b then Some (dec_value b) else None)"
    and "py_int rt (last (split_on CHR ''-'' (b @ [CHR 0x0A]))) =
           (if within_limit rt b then Some (dec_value b) else None)"
  using no_dash[OF assms] py_int_digits[OF assms, of rt]
  by (simp_all add: last_split_on split_on_no_sep)

lemma re_match_capacity_cases:
  assumes "is_ascii s" and "re_match_capacity rt s"
  obtains b where "digits b" "s = b \<or> s = b @ [CHR 0x0A]"
  | a b where "digits a" "digits b"
      "s = a @ CHR ''-'' # b \<or> s = a @ CHR ''-'' # b @ [CHR 0x0A]"
proof -
  from assms consider "cap_shape s" | "s \<noteq> []" "last s = CHR 0x0A" "cap_shape (butlast s)"
    by (auto simp: re_match_capacity_def)
  then show thesis
  proof cases
    case 1
    then show thesis using that unfolding cap_shape_iff by blast
  next
    case 2
    then have s: "s = butlast s @ [CHR 0x0A]" by (metis append_butlast_last_id)
    from 2(3) show thesis
      unfolding cap_shape_iff using that s by (metis append_Cons append_assoc)
  qed
qed

text \<open>
  On ASCII text that matches the pattern, line 22 returns the value of the last run of
  digits. Its \<^verbatim>\<open>int\<close> call is outside the \<^verbatim>\<open>try\<close>: when the run is longer than the
  limit on digits, its \<^verbatim>\<open>ValueError\<close> leaves \<open>parse_capacity\<close>.
\<close>

lemma parse_capacity_matched:
  assumes "is_ascii s" and "re_match_capacity rt s"
  shows "\<exists>b. digits b \<and>
           parse_capacity rt (CStr s) =
             (if within_limit rt b then Inr (Some (dec_value b)) else Inl ValueError) \<and>
           (s = b \<or> s = b @ [CHR 0x0A] \<or>
            (\<exists>a. digits a \<and> (s = a @ CHR ''-'' # b \<or> s = a @ CHR ''-'' # b @ [CHR 0x0A])))"
  using assms
proof (cases rule: re_match_capacity_cases)
  case (1 b)
  with assms upper_number(3,4)[OF 1(1), of rt] show ?thesis by auto
next
  case (2 a b)
  with assms upper_number(1,2)[OF 2(2), of rt a] show ?thesis by auto
qed

lemma parse_capacity_unmatched:
  "\<not> re_match_capacity rt s \<Longrightarrow> parse_capacity rt (CStr s) = Inr (py_int rt s)"
  by (auto split: option.splits)

lemma re_match_capacity_shapes:
  assumes "digits a" and "digits b"
  shows "re_match_capacity rt (a @ CHR ''-'' # b)" and "re_match_capacity rt a"
proof -
  from assms have "is_ascii (a @ CHR ''-'' # b)" "is_ascii a"
    by (auto simp: digits_def is_ascii_def is_digit_def list_all_iff)
  with assms show "re_match_capacity rt (a @ CHR ''-'' # b)" "re_match_capacity rt a"
    by (auto simp: re_match_capacity_def cap_shape_iff)
qed

lemma parse_capacity_range:
  assumes "digits a" "digits b" "within_limit rt b"
  shows "parse_capacity rt (CStr (a @ ''-'' @ b)) = Inr (Some (dec_value b))"
  using re_match_capacity_shapes(1)[OF assms(1,2), of rt] upper_number(1)[OF assms(2), of rt a]
    assms(3)
  by simp

lemma parse_capacity_single:
  assumes "digits a" "within_limit rt a"
  shows "parse_capacity rt (CStr a) = Inr (Some (dec_value a))"
  using re_match_capacity_shapes(2)[OF assms(1) assms(1), of rt] upper_number(3)[OF assms(1), of rt]
    assms(2)
  by simp

text \<open>
  With the numerals written out: the cell \<open>a-b\<close> yields \<open>b\<close> (whether or not \<open>a \<le> b\<close>),
  the cell \<open>a\<close> yields \<open>a\<close>, for numerals within the limit on digits.
\<close>

lemma parse_capacity_numerals:
  "within_limit rt (str_of_nat b) \<Longrightarrow>
   parse_capacity rt (CStr (str_of_nat a @ ''-'' @ str_of_nat b)) = Inr (Some (int b))"
  "within_limit rt (str_of_nat a) \<Longrightarrow>
   parse_capacity rt (CStr (str_of_nat a)) = Inr (Some (int a))"
  using parse_capacity_range[OF digits_str_of_nat digits_str_of_nat, of rt b a]
    parse_capacity_single[OF digits_str_of_nat, of rt a]
  by (simp_all add: dec_value_str_of_nat del: parse_capacity.simps)

text \<open>
  Where \<open>parse_capacity\<close> raises: on the infinite float, where \<^verbatim>\<open>int\<close> raises
  \<^verbatim>\<open>OverflowError\<close> and the handler catches \<^verbatim>\<open>ValueError\<close> alone, and on text that
  matches the pattern and whose last part \<^verbatim>\<open>int\<close> rejects, at line 22. ASCII text of at
  most 640 characters never makes it raise.
\<close>

lemma parse_capacity_raises:
  "parse_capacity rt cap = Inl e \<longleftrightarrow>
     cap = CInf \<and> e = OverflowError \<or>
     (\<exists>s. cap = CStr s \<and> re_match_capacity rt s \<and>
          py_int rt (last (split_on CHR ''-'' s)) = None \<and> e = ValueError)"
  by (cases cap) (auto split: option.splits)

lemma parse_capacity_short_ascii:
  assumes "is_ascii s" and "length s \<le> 640"
  shows "\<exists>r. parse_capacity rt (CStr s) = Inr r"
proof (cases "re_match_capacity rt s")
  case True
  from parse_capacity_matched[OF assms(1) True] obtain b where
    p: "parse_capacity rt (CStr s) =
          (if within_limit rt b then Inr (Some (dec_value b)) else Inl ValueError)"
    and s: "s = b \<or> s = b @ [CHR 0x0A] \<or>
            (\<exists>a. digits a \<and> (s = a @ CHR ''-'' # b \<or> s = a @ CHR ''-'' # b @ [CHR 0x0A]))"
    by blast
  from s assms(2) have "length b \<le> 640" by auto
  then have "within_limit rt b" by (simp add: within_limit_def)
  with p show ?thesis by simp
next
  case False
  then show ?thesis by (simp add: parse_capacity_unmatched del: parse_capacity.simps)
qed

subsection \<open>Rows through the load\<close>

lemma map_err_Inr_iff:
  "map_err f xs = Inr ys \<longleftrightarrow> list_all2 (\<lambda>x y. f x = Inr y) xs ys"
proof (induction xs arbitrary: ys)
  case Nil
  show ?case by auto
next
  case (Cons x xs)
  show ?case
    by (cases ys) (auto simp: Cons.IH[symmetric] split: sum.splits)
qed

lemma map_err_raises:
  "x \<in> set xs \<Longrightarrow> f x = Inl e \<Longrightarrow> \<exists>e'. map_err f xs = Inl e'"
  by (induction xs) (auto split: sum.splits)

lemma list_all2_in_set:
  "list_all2 P xs ys \<Longrightarrow> x \<in> set xs \<Longrightarrow> \<exists>y\<in>set ys. P x y"
  by (induction rule: list_all2_induct) auto

lemma set_Capacity_simps [simp]:
  "Capacity (set_Capacity v c) = c"
  "Budget (set_Capacity v c) = Budget v"
  "set_Capacity (set_Capacity v c) d = set_Capacity v d"
  by (simp_all add: set_Capacity_def)

lemma set_Budget_simps [simp]:
  "Budget (set_Budget v b) = b"
  "Capacity (set_Budget v b) = Capacity v"
  by (simp_all add: set_Budget_def)

lemma Capacity_parsed_Inr:
  "Capacity_parsed rt v = Inr q \<longleftrightarrow>
     (\<exists>c. parse_capacity rt (Capacity v) = Inr c \<and> q = set_Capacity v c)"
  by (auto simp: Capacity_parsed_def split: sum.splits)

lemma Capacity_parsed_rows:
  "map_err (Capacity_parsed rt) venues = Inr parsed \<Longrightarrow>
   list_all2 (\<lambda>v q. \<exists>n. parse_capacity rt (Capacity v) = Inr (Some n) \<and>
                         q = set_Capacity v (g n))
     (filter (\<lambda>v. parse_capacity rt (Capacity v) \<noteq> Inr None) venues)
     (dropna_Capacity g parsed)"
proof (induction venues arbitrary: parsed)
  case Nil
  then show ?case by simp
next
  case (Cons v vs)
  from Cons.prems obtain q ps where q: "Capacity_parsed rt v = Inr q"
    and ps: "map_err (Capacity_parsed rt) vs = Inr ps" and parsed: "parsed = q # ps"
    by (auto split: sum.splits)
  from q obtain c where c: "parse_capacity rt (Capacity v) = Inr c"
    and qc: "q = set_Capacity v c"
    unfolding Capacity_parsed_Inr by blast
  from Cons.IH[OF ps] show ?case
    unfolding parsed qc using c by (cases c) simp_all
qed

lemma Budget_int_rows:
  "map_err (Budget_int rt) qs = Inr table \<Longrightarrow>
   list_all2 (\<lambda>q w. astype_int rt (replace_Budget (Budget q)) = Inr (Budget w) \<and>
                     w = set_Budget q (Budget w)) qs table"
  unfolding map_err_Inr_iff
  by (erule list_all2_mono) (auto simp: Budget_int_def set_Budget_def split: sum.splits)

lemma Capacity_column_small:
  "Capacity_column rt ps = Inr g \<Longrightarrow> small n \<Longrightarrow> g n = n"
  by (auto simp: Capacity_column_def stored_def split: if_splits sum.splits)

lemma load_data_Inr:
  "load_data rt venues = Inr table \<longleftrightarrow>
     (\<exists>parsed g loaded.
        map_err (Capacity_parsed rt) venues = Inr parsed \<and>
        Capacity_column rt (map Capacity parsed) = Inr g \<and>
        map_err (Budget_int rt) (dropna_Capacity g parsed) = Inr loaded \<and>
        table = \<lparr>rows = loaded, columns = True,
                 Event_Type_text = is_text_column Event_Type venues,
                 Type_text = is_text_column Type venues\<rparr>)"
  by (auto simp: load_data_def split: sum.splits)

lemma load_data_Inl:
  "(\<exists>e. load_data rt venues = Inl e) \<longleftrightarrow>
     (\<forall>parsed g. map_err (Capacity_parsed rt) venues = Inr parsed \<longrightarrow>
        Capacity_column rt (map Capacity parsed) = Inr g \<longrightarrow>
        (\<exists>e. map_err (Budget_int rt) (dropna_Capacity g parsed) = Inl e))"
  by (auto simp: load_data_def split: sum.splits)

text \<open>The rows of a loaded table, one for each raw row whose Capacity parses.\<close>

lemma load_data_rows_rel:
  assumes "load_data rt venues = Inr table"
  shows "list_all2
           (\<lambda>v w. (\<exists>n. parse_capacity rt (Capacity v) = Inr (Some n) \<and>
                        (small n \<longrightarrow> Capacity w = n)) \<and>
                   astype_int rt (replace_Budget (Budget v)) = Inr (Budget w) \<and>
                   w = set_Budget (set_Capacity v (Capacity w)) (Budget w))
           (filter (\<lambda>v. parse_capacity rt (Capacity v) \<noteq> Inr None) venues) (rows table)"
proof -
  from assms obtain parsed g loaded
    where p: "map_err (Capacity_parsed rt) venues = Inr parsed"
      and g: "Capacity_column rt (map Capacity parsed) = Inr g"
      and l: "map_err (Budget_int rt) (dropna_Capacity g parsed) = Inr loaded"
      and t: "rows table = loaded"
    unfolding load_data_Inr by auto
  show ?thesis
    unfolding t
  proof (rule list_all2_trans[OF _ Capacity_parsed_rows[OF p, of g] Budget_int_rows[OF l]])
    fix v :: "(cell, cell) venue" and q :: "(int, cell) venue" and w :: "(int, int) venue"
    assume "\<exists>n. parse_capacity rt (Capacity v) = Inr (Some n) \<and> q = set_Capacity v (g n)"
    then obtain n where n: "parse_capacity rt (Capacity v) = Inr (Some n)"
      and q: "q = set_Capacity v (g n)"
      by blast
    assume "astype_int rt (replace_Budget (Budget q)) = Inr (Budget w) \<and>
            w = set_Budget q (Budget w)"
    then have b: "astype_int rt (replace_Budget (Budget v)) = Inr (Budget w)"
      and w: "w = set_Budget (set_Capacity v (g n)) (Budget w)"
      unfolding q by simp_all
    from w have cw: "Capacity w = g n"
      by (metis set_Budget_simps(2) set_Capacity_simps(1))
    have "small n \<longrightarrow> Capacity w = n"
      unfolding cw using Capacity_column_small[OF g] by blast
    moreover have "w = set_Budget (set_Capacity v (Capacity w)) (Budget w)"
      using w unfolding cw .
    ultimately show "(\<exists>n. parse_capacity rt (Capacity v) = Inr (Some n) \<and>
                        (small n \<longrightarrow> Capacity w = n)) \<and>
                   astype_int rt (replace_Budget (Budget v)) = Inr (Budget w) \<and>
                   w = set_Budget (set_Capacity v (Capacity w)) (Budget w)"
      using n b by blast
  qed
qed

section \<open>Facts about the filter\<close>

lemma all_in_Some: "all_in items (Some s) = Inr (list_all (\<lambda>i. py_in i s) items)"
  by (induction items) auto

lemma all_in_None: "items \<noteq> [] \<Longrightarrow> all_in items None = Inl TypeError"
  by (cases items) auto

lemma all_in_has_all:
  "items \<noteq> [] \<Longrightarrow>
   all_in items x = (case x of None \<Rightarrow> Inl TypeError | Some s \<Rightarrow> Inr (has_all items x))"
  by (cases x) (simp_all add: all_in_Some all_in_None has_all_def)

lemma map_err_all_in:
  assumes "items \<noteq> []"
  shows "map_err (\<lambda>v. all_in items (Available_Equipments v)) xs =
     (if \<exists>v\<in>set xs. Available_Equipments v = None then Inl TypeError
      else Inr (map (\<lambda>v. has_all items (Available_Equipments v)) xs))"
proof (induction xs)
  case Nil
  show ?case by simp
next
  case (Cons x xs)
  show ?case
  proof (cases "Available_Equipments x")
    case None
    then show ?thesis using assms by (simp add: all_in_None)
  next
    case (Some s)
    then show ?thesis using assms Cons.IH by (simp add: all_in_has_all)
  qed
qed

lemma zip_keep: "map fst (filter snd (zip xs (map f xs))) = filter f xs"
  by (induction xs) auto

lemma pre_amenity_filter:
  "(let f1 = (if venue_type c \<noteq> ''Any''
                then filter (\<lambda>v. type_matches (venue_type c) (Type v))
                       (filter (base_mask c) vs)
                else filter (base_mask c) vs);
        f2 = (if selected_location c \<noteq> ''Any''
                then filter (\<lambda>v. Location v = Some (selected_location c)) f1 else f1)
    in g f2) = g (filter (pre_amenity c) vs)"
proof -
  have "pre_amenity c = (\<lambda>v. base_mask c v \<and>
     (venue_type c \<noteq> ''Any'' \<longrightarrow> type_matches (venue_type c) (Type v)) \<and>
     (selected_location c \<noteq> ''Any'' \<longrightarrow> Location v = Some (selected_location c)))"
    by (auto simp: pre_amenity_def fun_eq_iff)
  then show ?thesis
    by (auto simp: Let_def intro!: arg_cong[where f=g] filter_cong)
qed

text \<open>
  The filter in one equation. It raises \<^verbatim>\<open>KeyError\<close> on a frame without columns,
  \<^verbatim>\<open>AttributeError\<close> when a column it reads through \<^verbatim>\<open>.str\<close> is not a column of text,
  and \<^verbatim>\<open>TypeError\<close> when amenities are requested and some row that passes the other
  criteria has no Available Equipments text. Otherwise it returns the rows that satisfy the
  whole conjunction, in table order; the frame it returns has lost its columns when
  amenities are requested and no row passes the other criteria.
\<close>

lemma filtered_venues_eq:
  "filtered_venues venues c =
     (if \<not> columns venues then Inl KeyError
      else if \<not> Event_Type_text venues \<or> (venue_type c \<noteq> ''Any'' \<and> \<not> Type_text venues)
      then Inl AttributeError
      else if selected_amenities c \<noteq> [] \<and>
         (\<exists>v\<in>set (rows venues). pre_amenity c v \<and> Available_Equipments v = None)
      then Inl TypeError
      else Inr (venues\<lparr>rows := filter (selected c) (rows venues),
                       columns := selected_amenities c = [] \<or>
                                  (\<exists>v\<in>set (rows venues). pre_amenity c v)\<rparr>))"
proof -
  let ?pre = "filter (pre_amenity c) (rows venues)"
  have sel: "filter (selected c) (rows venues) =
      (if selected_amenities c \<noteq> []
       then filter (\<lambda>v. has_all (selected_amenities c) (Available_Equipments v)) ?pre
       else ?pre)"
    by (auto simp: selected_def intro!: filter_cong)
  have ne: "?pre = [] \<longleftrightarrow> \<not> (\<exists>v\<in>set (rows venues). pre_amenity c v)"
    by (auto simp: filter_empty_conv)
  have "filtered_venues venues c =
     (if \<not> columns venues then Inl KeyError
      else if \<not> Event_Type_text venues then Inl AttributeError
      else if venue_type c \<noteq> ''Any'' \<and> \<not> Type_text venues then Inl AttributeError
      else if selected_amenities c \<noteq> []
           then (if ?pre = [] then Inr (venues\<lparr>rows := [], columns := False\<rparr>)
                 else
                   (case map_err
                           (\<lambda>v. all_in (selected_amenities c) (Available_Equipments v))
                           ?pre of
                      Inl e \<Rightarrow> Inl e
                    | Inr keep \<Rightarrow>
                        Inr (venues\<lparr>rows := map fst (filter snd (zip ?pre keep))\<rparr>)))
           else Inr (venues\<lparr>rows := ?pre\<rparr>))"
    unfolding filtered_venues_def Let_def[of "filter (base_mask c) (rows venues)"]
    by (simp only: pre_amenity_filter)
  also have "\<dots> =
     (if \<not> columns venues then Inl KeyError
      else if \<not> Event_Type_text venues \<or> (venue_type c \<noteq> ''Any'' \<and> \<not> Type_text venues)
      then Inl AttributeError
      else if selected_amenities c \<noteq> [] \<and>
         (\<exists>v\<in>set (rows venues). pre_amenity c v \<and> Available_Equipments v = None)
      then Inl TypeError
      else Inr (venues\<lparr>rows := filter (selected c) (rows venues),
                       columns := selected_amenities c = [] \<or>
                                  (\<exists>v\<in>set (rows venues). pre_amenity c v)\<rparr>))"
    by (auto simp: map_err_all_in zip_keep sel ne filter_empty_conv)
  finally show ?thesis .
qed

lemma filtered_venues_Inr:
  "filtered_venues venues c = Inr result \<Longrightarrow>
   rows result = filter (selected c) (rows venues)"
  by (auto simp: filtered_venues_eq split: if_splits)

lemma selected_iff:
  "selected c v \<longleftrightarrow>
     attendees c \<le> Capacity v \<and> Budget v \<le> budget c \<and>
     (\<exists>e. Event_Type v = Some e \<and> sublist (lower (event_label (event_type c))) (lower e)) \<and>
     (venue_type c \<noteq> ''Any'' \<longrightarrow> (\<exists>t. Type v = Some t \<and> lower t = lower (venue_type c))) \<and>
     (selected_location c \<noteq> ''Any'' \<longrightarrow> Location v = Some (selected_location c)) \<and>
     (selected_amenities c \<noteq> [] \<longrightarrow>
        (\<exists>x. Available_Equipments v = Some x \<and> (\<forall>a\<in>set (selected_amenities c). sublist a x)))"
  by (auto simp: selected_def pre_amenity_def base_mask_def str_contains_def type_matches_def
      has_all_def py_in_sublist list_all_iff split: option.splits)


section \<open>The dataset, evaluated\<close>

text \<open>
  The evaluations below hold on every runtime: none consults a parameter. The closed
  statements further down are their instances on \<open>cpython\<close>.
\<close>

lemma venues_csv_loads: "load_data rt venues_csv = Inr venues_loaded"
  by code_simp

lemma hall_cellar_load:
  "load_data rt [hall, cellar] = Inr (text_frame [hall_loaded, cellar_loaded])"
  by code_simp

lemma hall_barn_load: "load_data rt [hall, barn] = Inr (text_frame [hall_loaded])"
  by code_simp

lemma barn_Budget: "astype_int rt (replace_Budget (Budget barn)) = Inl ValueError"
  by code_simp

lemma lawn_alone_loads:
  "load_data rt [lawn] =
     Inr \<lparr>rows = [lawn_loaded], columns = True, Event_Type_text = False, Type_text = True\<rparr>"
  by code_simp

lemma plan_result:
  "filtered_venues venues_loaded plan = Inr (text_frame [hall_loaded, club_loaded])"
  by code_simp


section \<open>The claims\<close>

subsection \<open>The filter\<close>

text \<open>
  Claim C1, as amended. Whenever the filter returns, a row is in the result if and only if
  it is a row of the table, its Capacity is at least the attendee count, its Budget at most
  the budget ceiling, its Event Type is text that contains the requested event type
  ignoring case, its Type equals the requested venue type ignoring case unless that is
  \<open>Any\<close>, its Location equals the requested location exactly unless that is \<open>Any\<close>, and,
  when amenities are requested, its Available Equipments is text in which every requested
  amenity occurs. The claim as written leaves the last criterion out.
\<close>

theorem filtered_venues_row_iff:
  assumes "filtered_venues venues c = Inr result"
  shows "v \<in> set (rows result) \<longleftrightarrow>
     v \<in> set (rows venues) \<and> attendees c \<le> Capacity v \<and> Budget v \<le> budget c \<and>
     (\<exists>e. Event_Type v = Some e \<and> sublist (lower (event_label (event_type c))) (lower e)) \<and>
     (venue_type c \<noteq> ''Any'' \<longrightarrow> (\<exists>t. Type v = Some t \<and> lower t = lower (venue_type c))) \<and>
     (selected_location c \<noteq> ''Any'' \<longrightarrow> Location v = Some (selected_location c)) \<and>
     (selected_amenities c \<noteq> [] \<longrightarrow>
        (\<exists>x. Available_Equipments v = Some x \<and>
             (\<forall>a\<in>set (selected_amenities c). sublist a x)))"
proof -
  have "rows result = filter (selected c) (rows venues)"
    using assms by (rule filtered_venues_Inr)
  then have "v \<in> set (rows result) \<longleftrightarrow> v \<in> set (rows venues) \<and> selected c v"
    by simp
  then show ?thesis
    unfolding selected_iff .
qed

theorem filtered_venues_row_iff_witness:
  "filtered_venues venues_loaded plan = Inr (text_frame [hall_loaded, club_loaded]) \<and>
   attendees plan \<le> Capacity club_loaded \<and> Budget club_loaded \<le> budget plan \<and>
   Location lawn_loaded \<noteq> Some ''City A'' \<and>
   lawn_loaded \<notin> set [hall_loaded, club_loaded]"
proof -
  have club: "club_loaded \<in> set (rows (text_frame [hall_loaded, club_loaded]))"
    by (simp add: text_frame_def)
  have lawn: "Event_Type lawn_loaded = None"
    by (simp add: lawn_loaded_def)
  from filtered_venues_row_iff[OF plan_result, of club_loaded]
    filtered_venues_row_iff[OF plan_result, of lawn_loaded] club lawn plan_result
  show ?thesis
    by (simp add: lawn_loaded_def text_frame_def)
qed

text \<open>
  The claim as written fails on the hall of scenario A when a projector is requested: the
  row meets the five criteria the claim lists and is not in the result.
\<close>

theorem filtered_venues_five_criteria_counterexample:
  "filtered_venues (text_frame [hall_loaded]) (plan\<lparr>selected_amenities := [''Projector'']\<rparr>) =
     Inr (text_frame []) \<and>
   attendees plan \<le> Capacity hall_loaded \<and> Budget hall_loaded \<le> budget plan \<and>
   Event_Type hall_loaded = Some ''Wedding'' \<and> event_label (event_type plan) = ''Wedding'' \<and>
   venue_type plan = ''Indoor'' \<and> Type hall_loaded = Some ''Indoor'' \<and>
   selected_location plan = ''Any''"
  by code_simp












text \<open>
  Claim C5, as amended. On a row whose Available Equipments field holds text, the amenity
  test is true if and only if every requested amenity occurs in that text as a contiguous
  run of characters. Inclusion of the requested amenities in the field's collection of
  tags is sufficient for that, and not necessary. With nothing requested the test is true.
\<close>

theorem amenity_test_is_substring:
  "all_in items (Some x) = Inr (\<forall>a\<in>set items. sublist a x) \<and>
   (spec_amenity_criterion items x \<longrightarrow> all_in items (Some x) = Inr True) \<and>
   all_in [] y = Inr True"
  by (auto simp: all_in_Some list_all_iff py_in_sublist spec_amenity_criterion_def
      dest: spec_tag_sublist)

theorem amenity_test_is_substring_witness:
  "spec_amenity_criterion [''Mic'', ''WiFi''] ''Mic, WiFi'' \<and>
   all_in [''Mic'', ''WiFi''] (Some ''Mic, WiFi'') = Inr True"
proof -
  have h: "spec_amenity_criterion [''Mic'', ''WiFi''] ''Mic, WiFi''"
    by code_simp
  from amenity_test_is_substring[of "[''Mic'', ''WiFi'']" "''Mic, WiFi''"] h
  show ?thesis by simp
qed

text \<open>
  The claim as written, with inclusion in the collection of tags, fails on the club: its
  tags are \<open>Microphone\<close> and \<open>WiFi\<close>, and a request for \<open>Mic\<close> selects it.
\<close>

theorem amenity_tags_counterexample:
  "filtered_venues (text_frame [club_loaded]) plan = Inr (text_frame [club_loaded]) \<and>
   selected_amenities plan = [''Mic''] \<and>
   Available_Equipments club_loaded = Some ''Microphone,WiFi'' \<and>
   spec_amenity_tags ''Microphone,WiFi'' = [''Microphone'', ''WiFi''] \<and>
   \<not> spec_amenity_criterion [''Mic''] ''Microphone,WiFi''"
  by code_simp

subsection \<open>The loader\<close>

text \<open>
  Claim C2. On text, on a missing cell, on an integer and on a finite float
  \<open>parse_capacity\<close> does what the claim says (lemmas \<open>parse_capacity_matched\<close>,
  \<open>parse_capacity_unmatched\<close> and \<open>parse_capacity_numerals\<close>, for numerals within the
  limit on digits). On the infinite float, which \<^verbatim>\<open>read_csv\<close> produces from the text
  \<^verbatim>\<open>inf\<close> in a column of numbers, both attempts fail and the row is not dropped: the
  load as a whole raises \<^verbatim>\<open>OverflowError\<close>, on every runtime.
\<close>

theorem parse_capacity_infinite:
  "parse_capacity rt CInf = Inl OverflowError \<and>
   load_data rt [hall\<lparr>Capacity := CFloat 250\<rparr>, lawn\<lparr>Capacity := CInf\<rparr>] = Inl OverflowError"
  by (simp add: load_data_def Capacity_parsed_def hall_def lawn_def)

text \<open>
  Claim C3, as amended. When the load returns a table, its rows are, in order, the raw rows
  whose Capacity parses, each with an integer Capacity, which is the parsed one when that is
  at most \<^verbatim>\<open>2**53\<close> in magnitude, the integer that line 33 makes of its Budget cell as
  Budget, and its other cells unchanged; a row whose Capacity does not parse is absent. The
  two integers may be negative.
\<close>

theorem load_data_rows:
  assumes "load_data rt venues = Inr table"
  shows "list_all2
           (\<lambda>v w. (\<exists>n. parse_capacity rt (Capacity v) = Inr (Some n) \<and>
                        (\<bar>n\<bar> \<le> 2 ^ 53 \<longrightarrow> Capacity w = n)) \<and>
                   astype_int rt (replace_Budget (Budget v)) = Inr (Budget w) \<and>
                   w = set_Budget (set_Capacity v (Capacity w)) (Budget w))
           (filter (\<lambda>v. parse_capacity rt (Capacity v) \<noteq> Inr None) venues) (rows table)"
proof -
  have s: "small n \<longleftrightarrow> \<bar>n\<bar> \<le> 2 ^ 53" for n
    by (auto simp: small_def)
  show ?thesis
    using load_data_rows_rel[OF assms] unfolding s .
qed

theorem load_data_rows_witness:
  "load_data cpython venues_csv = Inr venues_loaded \<and>
   length (filter (\<lambda>v. parse_capacity cpython (Capacity v) \<noteq> Inr None) venues_csv) =
     length (rows venues_loaded)"
  using load_data_rows[OF venues_csv_loads, of cpython] venues_csv_loads[of cpython]
  by (auto dest: list_all2_lengthD)

text \<open>
  The claim as written, with non-negative integers, fails on the cellar: the cell \<open>-5\<close>
  does not match the pattern, \<^verbatim>\<open>int\<close> reads it, and the row is kept with Capacity \<open>-5\<close>.
\<close>

theorem load_data_negative_counterexample:
  "load_data cpython [hall, cellar] = Inr (text_frame [hall_loaded, cellar_loaded]) \<and>
   Capacity cellar_loaded < 0 \<and> Budget cellar_loaded < 0"
  using hall_cellar_load[of cpython] by (simp add: cellar_loaded_def)

text \<open>
  Claim C6, as amended. A Budget cell that line 33 cannot convert, \<^verbatim>\<open>int\<close> rejecting
  what is left of it once the rupee sign and the commas are removed, makes the whole load
  fail, with no table, when it is in a row whose Capacity parses.
\<close>

theorem Budget_failure_is_fatal:
  assumes "v \<in> set venues"
    and "parse_capacity rt (Capacity v) = Inr (Some n)"
    and "astype_int rt (replace_Budget (Budget v)) = Inl e"
  shows "\<exists>e'. load_data rt venues = Inl e'"
proof (cases "load_data rt venues")
  case (Inl e')
  then show ?thesis by blast
next
  case (Inr table)
  from assms(1,2)
  have "v \<in> set (filter (\<lambda>v. parse_capacity rt (Capacity v) \<noteq> Inr None) venues)"
    by simp
  from list_all2_in_set[OF load_data_rows_rel[OF Inr] this] assms(3)
  show ?thesis
    by (elim bexE conjE) simp
qed

theorem Budget_failure_is_fatal_witness:
  "barn\<lparr>Capacity := CStr ''40''\<rparr> \<in> set [hall, barn\<lparr>Capacity := CStr ''40''\<rparr>] \<and>
   parse_capacity cpython (Capacity (barn\<lparr>Capacity := CStr ''40''\<rparr>)) = Inr (Some 40) \<and>
   astype_int cpython (replace_Budget (Budget (barn\<lparr>Capacity := CStr ''40''\<rparr>))) =
     Inl ValueError \<and>
   load_data cpython [hall, barn\<lparr>Capacity := CStr ''40''\<rparr>] = Inl ValueError"
proof -
  have 0: "barn\<lparr>Capacity := CStr ''40''\<rparr> \<in> set [hall, barn\<lparr>Capacity := CStr ''40''\<rparr>]"
    by simp
  have 1: "parse_capacity cpython (Capacity (barn\<lparr>Capacity := CStr ''40''\<rparr>)) = Inr (Some 40)"
    by code_simp
  have 2: "astype_int cpython (replace_Budget (Budget (barn\<lparr>Capacity := CStr ''40''\<rparr>))) =
      Inl ValueError"
    by code_simp
  have 3: "load_data cpython [hall, barn\<lparr>Capacity := CStr ''40''\<rparr>] = Inl ValueError"
    by code_simp
  from Budget_failure_is_fatal[OF 0 1 2] 0 1 2 3
  show ?thesis by simp
qed

text \<open>
  The claim as written fails on the barn: its Budget cell is not a number, its Capacity
  cell is not one either, and the load returns a table, without the barn.
\<close>

theorem Budget_failure_masked_counterexample:
  "astype_int cpython (replace_Budget (Budget barn)) = Inl ValueError \<and>
   load_data cpython [hall, barn] = Inr (text_frame [hall_loaded])"
  using barn_Budget[of cpython] hall_barn_load[of cpython] by simp

end
